theory Spec2Isabelle
  imports Complex_Main "HOL-Library.Log_Nat"
begin

section \<open>JavaScript values used by the sources\<close>

text \<open>
  The sources are TypeScript. A property that may be \<^verbatim>\<open>undefined\<close> or \<^verbatim>\<open>null\<close> is an
  \<open>option\<close>; both are falsy and \<^verbatim>\<open>x || undefined\<close> turns both into \<^verbatim>\<open>undefined\<close>, so one
  \<open>None\<close> stands for the two. A string is truthy exactly when it is not empty.
\<close>

definition truthy :: "string option \<Rightarrow> bool" where
  "truthy v = (case v of None \<Rightarrow> False | Some s \<Rightarrow> s \<noteq> [])"

text \<open>\<^verbatim>\<open>a || b\<close> on optional strings.\<close>

definition js_or :: "string option \<Rightarrow> string option \<Rightarrow> string option" where
  "js_or a b = (if truthy a then a else b)"

text \<open>\<^verbatim>\<open>a || 'literal'\<close>: the result is always a string.\<close>

fun or_default :: "string option \<Rightarrow> string \<Rightarrow> string" where
  "or_default None d = d"
| "or_default (Some s) d = (if s = [] then d else s)"

text \<open>\<^verbatim>\<open>s.split(c)\<close> for a separator of one character: never an empty array.\<close>

fun split :: "char \<Rightarrow> string \<Rightarrow> string list" where
  "split c [] = [[]]"
| "split c (x # xs) =
     (if x = c then [] # split c xs
      else (case split c xs of [] \<Rightarrow> [[x]] | p # ps \<Rightarrow> (x # p) # ps))"

text \<open>\<^verbatim>\<open>arr[0]\<close>: \<^verbatim>\<open>undefined\<close> on an empty array.\<close>

fun index0 :: "'a list \<Rightarrow> 'a option" where
  "index0 [] = None"
| "index0 (x # _) = Some x"

subsection \<open>Numbers\<close>

text \<open>
  A \<^verbatim>\<open>number\<close> is an IEEE 754 double: a finite value, which is a rational, or NaN, or one
  of the two infinities. \<open>Finite 0\<close> stands for both zeros, which no operation used here
  tells apart. A sum or difference is the exact result rounded to the nearest double, to
  the even one of two equally near; \<open>Finite r\<close> is meant for an \<open>r\<close> that is a double.
\<close>

datatype number = Finite rat | NaN | PosInfinity | NegInfinity

text \<open>The largest \<open>d\<close> with \<open>2 powi d \<le> r\<close>, for \<open>r\<close> above 0.\<close>

definition floor_log2 :: "rat \<Rightarrow> int" where
  "floor_log2 r =
     (case quotient_of r of
        (a, b) \<Rightarrow> let d = bitlen a - bitlen b in if 2 powi d \<le> r then d else d - 1)"

definition round_half_even :: "rat \<Rightarrow> int" where
  "round_half_even x =
     (let f = \<lfloor>x\<rfloor>; d = x - of_int f
      in if d < 1 / 2 then f else if 1 / 2 < d then f + 1 else if even f then f else f + 1)"

text \<open>
  Rounding to a double: 53 significant bits, the last of them worth \<open>2 powi p\<close> and never
  less than \<open>2 powi (- 1074)\<close>, and an infinity from \<open>2 ^ 1024\<close>.
\<close>

definition round_double :: "rat \<Rightarrow> number" where
  "round_double r =
     (if r = 0 then Finite 0
      else let p = max (floor_log2 \<bar>r\<bar> - 52) (- 1074);
               v = of_int (round_half_even (\<bar>r\<bar> / 2 powi p)) * 2 powi p
           in if 2 ^ 1024 \<le> v then (if 0 < r then PosInfinity else NegInfinity)
              else Finite (sgn r * v))"

fun num_neg :: "number \<Rightarrow> number" where
  "num_neg (Finite r) = Finite (- r)"
| "num_neg NaN = NaN"
| "num_neg PosInfinity = NegInfinity"
| "num_neg NegInfinity = PosInfinity"

text \<open>\<^verbatim>\<open>a + b\<close> and \<^verbatim>\<open>a - b\<close> on numbers.\<close>

fun num_add :: "number \<Rightarrow> number \<Rightarrow> number" where
  "num_add NaN _ = NaN"
| "num_add _ NaN = NaN"
| "num_add (Finite a) (Finite b) = round_double (a + b)"
| "num_add PosInfinity NegInfinity = NaN"
| "num_add NegInfinity PosInfinity = NaN"
| "num_add PosInfinity _ = PosInfinity"
| "num_add _ PosInfinity = PosInfinity"
| "num_add NegInfinity _ = NegInfinity"
| "num_add _ NegInfinity = NegInfinity"

definition num_sub :: "number \<Rightarrow> number \<Rightarrow> number" where
  "num_sub a b = num_add a (num_neg b)"

text \<open>A number is falsy when it is zero or NaN.\<close>

fun truthy_number :: "number \<Rightarrow> bool" where
  "truthy_number (Finite r) = (r \<noteq> 0)"
| "truthy_number NaN = False"
| "truthy_number PosInfinity = True"
| "truthy_number NegInfinity = True"

section \<open>The derived user view (src/hooks/useAuth.tsx, AuthProvider)\<close>

text \<open>
  The remote identity, as \<^verbatim>\<open>AuthUser\<close> of src/config/supabase.ts declares it (with the
  \<^verbatim>\<open>created_at\<close> that AuthProvider reads). The metadata objects are read through \<^verbatim>\<open>?.\<close>, so
  they may be absent.
\<close>

record user_metadata =
  um_full_name :: "string option"
  um_avatar_url :: "string option"
  um_role :: "string option"

record app_metadata =
  am_role :: "string option"

record auth_user =
  au_id :: string
  au_email :: "string option"
  au_user_metadata :: "user_metadata option"
  au_app_metadata :: "app_metadata option"
  au_created_at :: string

text \<open>The profile row: the columns AuthProvider reads from it.\<close>

record profile =
  pr_full_name :: "string option"
  pr_email :: "string option"
  pr_role :: "string option"
  pr_avatar_url :: "string option"
  pr_phone :: "string option"
  pr_date_of_birth :: "string option"
  pr_gender :: "string option"
  pr_medical_license :: "string option"
  pr_specialization :: "string option"
  pr_department :: "string option"
  pr_created_at :: "string option"
  pr_updated_at :: "string option"

text \<open>The interface \<^verbatim>\<open>User\<close> of useAuth.tsx.\<close>

record user =
  u_id :: string
  u_name :: string
  u_email :: string
  u_role :: string
  u_avatar :: "string option"
  u_phone :: "string option"
  u_dateOfBirth :: "string option"
  u_gender :: "string option"
  u_medicalLicense :: "string option"
  u_specialization :: "string option"
  u_department :: "string option"
  u_dateCreated :: string
  u_lastActive :: "string option"

text \<open>
  \<^verbatim>\<open>profile?.field\<close>, \<^verbatim>\<open>supabaseUser.user_metadata?.field\<close> and, further down,
  \<^verbatim>\<open>query?.field\<close>.
\<close>

definition opt_field :: "'r option \<Rightarrow> ('r \<Rightarrow> 'a option) \<Rightarrow> 'a option" where
  "opt_field r f = (case r of None \<Rightarrow> None | Some x \<Rightarrow> f x)"

text \<open>\<^verbatim>\<open>supabaseUser.email?.split('@')[0]\<close>\<close>

definition email_local_part :: "string option \<Rightarrow> string option" where
  "email_local_part e = (case e of None \<Rightarrow> None | Some s \<Rightarrow> index0 (split CHR ''@'' s))"

text \<open>The constant \<^verbatim>\<open>user\<close> of AuthProvider (useAuth.tsx, lines 51 to 65).\<close>

definition AuthProvider_user :: "auth_user option \<Rightarrow> profile option \<Rightarrow> user option" where
  "AuthProvider_user supabaseUser prof =
     (case supabaseUser of
        None \<Rightarrow> None
      | Some su \<Rightarrow> Some \<lparr>
          u_id = au_id su,
          u_name = or_default
            (js_or (js_or (opt_field prof pr_full_name)
                          (opt_field (au_user_metadata su) um_full_name))
                   (email_local_part (au_email su)))
            ''User'',
          u_email = or_default (js_or (opt_field prof pr_email) (au_email su)) '''',
          u_role = or_default
            (js_or (opt_field prof pr_role) (opt_field (au_user_metadata su) um_role))
            ''patient'',
          u_avatar = js_or (opt_field prof pr_avatar_url) None,
          u_phone = js_or (opt_field prof pr_phone) None,
          u_dateOfBirth = js_or (opt_field prof pr_date_of_birth) None,
          u_gender = js_or (opt_field prof pr_gender) None,
          u_medicalLicense = js_or (opt_field prof pr_medical_license) None,
          u_specialization = js_or (opt_field prof pr_specialization) None,
          u_department = js_or (opt_field prof pr_department) None,
          u_dateCreated = or_default (opt_field prof pr_created_at) (au_created_at su),
          u_lastActive = js_or (opt_field prof pr_updated_at) None \<rparr>)"

text \<open>\<^verbatim>\<open>const isAuthenticated = !!supabaseUser && !!supabaseUser.id\<close>\<close>

definition AuthProvider_isAuthenticated :: "auth_user option \<Rightarrow> bool" where
  "AuthProvider_isAuthenticated supabaseUser =
     (case supabaseUser of None \<Rightarrow> False | Some su \<Rightarrow> au_id su \<noteq> [])"

text \<open>
  \<^verbatim>\<open>getUserRole\<close> of src/config/supabase.ts, given what \<^verbatim>\<open>getCurrentUser\<close> resolved to:
  \<^verbatim>\<open>user.app_metadata?.role || user.user_metadata?.role || null\<close>.
\<close>

definition getUserRole :: "auth_user option \<Rightarrow> string option" where
  "getUserRole u =
     (case u of
        None \<Rightarrow> None
      | Some su \<Rightarrow> js_or (js_or (opt_field (au_app_metadata su) am_role)
                              (opt_field (au_user_metadata su) um_role))
                       None)"

text \<open>
  The precedence rule in the specification's words: application-level role, then the
  user-supplied role (the profile's, then the user metadata's), then \<^verbatim>\<open>patient\<close>.
\<close>

definition spec_role :: "auth_user \<Rightarrow> profile option \<Rightarrow> string" where
  "spec_role su prof =
     or_default
       (js_or (opt_field (au_app_metadata su) am_role)
              (js_or (opt_field prof pr_role) (opt_field (au_user_metadata su) um_role)))
       ''patient''"

section \<open>The route guard (ProtectedRoute)\<close>

record ProtectedRouteProps =
  isAuthenticated :: bool
  loading :: "bool option"
  redirectPath :: "string option"

datatype rendered = LoadingSpinner | Navigate string | Outlet

text \<open>The parameter defaults are \<^verbatim>\<open>loading = false\<close> and \<^verbatim>\<open>redirectPath = '/login'\<close>.\<close>

definition ProtectedRoute :: "ProtectedRouteProps \<Rightarrow> rendered" where
  "ProtectedRoute props =
     (let l = (case loading props of None \<Rightarrow> False | Some b \<Rightarrow> b);
          r = (case redirectPath props of None \<Rightarrow> ''/login'' | Some p \<Rightarrow> p)
      in if l then LoadingSpinner
         else if \<not> isAuthenticated props then Navigate r
         else Outlet)"

section \<open>The route table (src/App.tsx)\<close>

datatype element =
    Layout | LandingPage | LoginPage | RegisterPage | EmailVerificationPage
  | PasswordResetPage | Dashboard | AppointmentsPage | ConsultationPage
  | MedicalRecordsPage | ChatPage | ChatbotPage | PrescriptionsPage
  | NotificationsPage | ProfilePage | AdminDashboard
  | ProtectedRouteElement ProtectedRouteProps

text \<open>
  A \<^verbatim>\<open><Route>\<close>: its \<^verbatim>\<open>path\<close> (absent on an index route and on a route that only wraps
  its children in an element), its element and its child routes.
\<close>

datatype route = Route (route_path: "string option") (route_element: element)
  (route_children: "route list")

datatype app_rendered = LoadingScreen | Routes "route list"

text \<open>What \<^verbatim>\<open>useAuth()\<close> hands to \<^verbatim>\<open>App\<close>.\<close>

record auth_context =
  ctx_isAuthenticated :: bool
  ctx_loading :: bool
  ctx_user :: "user option"

text \<open>\<^verbatim>\<open>const isAdmin = user?.role === 'admin'\<close>\<close>

definition isAdmin :: "auth_context \<Rightarrow> bool" where
  "isAdmin ctx = (case ctx_user ctx of None \<Rightarrow> False | Some u \<Rightarrow> u_role u = ''admin'')"

text \<open>
  \<^verbatim>\<open>{isAdmin && (<Route path="admin" ... />)}\<close> is \<^verbatim>\<open>false\<close> for any other role, and a
  \<^verbatim>\<open>false\<close> child is no route.
\<close>

definition App :: "auth_context \<Rightarrow> app_rendered" where
  "App ctx =
     (if ctx_loading ctx then LoadingScreen
      else Routes
        [Route (Some ''/'') Layout
          ([Route None LandingPage [],
            Route (Some ''login'') LoginPage [],
            Route (Some ''register'') RegisterPage [],
            Route (Some ''auth/verify'') EmailVerificationPage [],
            Route (Some ''auth/confirm'') EmailVerificationPage [],
            Route (Some ''verify'') EmailVerificationPage [],
            Route (Some ''reset-password'') PasswordResetPage [],
            Route (Some ''auth/reset-password'') PasswordResetPage [],
            Route None
              (ProtectedRouteElement
                 \<lparr>isAuthenticated = ctx_isAuthenticated ctx, loading = None,
                  redirectPath = None\<rparr>)
              ([Route (Some ''dashboard'') Dashboard [],
                Route (Some ''appointments'') AppointmentsPage [],
                Route (Some ''consultation/:id'') ConsultationPage [],
                Route (Some ''medical-records'') MedicalRecordsPage [],
                Route (Some ''chat'') ChatPage [],
                Route (Some ''chat/:channelUrl'') ChatPage [],
                Route (Some ''chatbot'') ChatbotPage [],
                Route (Some ''prescriptions'') PrescriptionsPage [],
                Route (Some ''notifications'') NotificationsPage [],
                Route (Some ''profile'') ProfilePage []]
               @ (if isAdmin ctx then [Route (Some ''admin'') AdminDashboard []] else []))])])"

text \<open>
  Reading the table: a child's path is joined to its parent's with one \<^verbatim>\<open>/\<close>, a route
  without a path keeps its parent's, and a route is guarded when it lies below a
  \<^verbatim>\<open>ProtectedRoute\<close> element.
\<close>

definition join_path :: "string \<Rightarrow> string option \<Rightarrow> string" where
  "join_path parent p =
     (case p of
        None \<Rightarrow> parent
      | Some s \<Rightarrow> if parent = [] \<or> parent = ''/'' then
                   (if s \<noteq> [] \<and> hd s = CHR ''/'' then s else CHR ''/'' # s)
                 else parent @ CHR ''/'' # s)"

fun is_guard :: "element \<Rightarrow> bool" where
  "is_guard (ProtectedRouteElement _) = True"
| "is_guard _ = False"

text \<open>Every route of the table with its full path and whether it is guarded.\<close>

fun mounted :: "bool \<Rightarrow> string \<Rightarrow> route \<Rightarrow> (string \<times> element \<times> bool) list" where
  "mounted g parent (Route p e cs) =
     (join_path parent p, e, g) #
     concat (map (mounted (g \<or> is_guard e) (join_path parent p)) cs)"

definition mounted_routes :: "route list \<Rightarrow> (string \<times> element \<times> bool) list" where
  "mounted_routes rs = concat (map (mounted False []) rs)"

text \<open>The paths mounted inside, and outside, the protected subtree.\<close>

definition protected_paths :: "route list \<Rightarrow> string list" where
  "protected_paths rs = map fst (filter (\<lambda>(p, e, g). g \<and> \<not> is_guard e) (mounted_routes rs))"

definition public_paths :: "route list \<Rightarrow> string list" where
  "public_paths rs = map fst (filter (\<lambda>(p, e, g). \<not> g \<and> \<not> is_guard e) (mounted_routes rs))"

section \<open>The backend access layer (src/config/supabase.ts)\<close>

subsection \<open>Errors\<close>

text \<open>
  The error object of a remote response: \<^verbatim>\<open>handleSupabaseError\<close> reads its \<^verbatim>\<open>message\<close> and
  its \<^verbatim>\<open>code\<close>, and either may be missing (a storage error carries no code).
\<close>

record remote_error =
  err_message :: "string option"
  err_code :: "string option"

text \<open>The class \<^verbatim>\<open>SupabaseError\<close>: a message and an optional code.\<close>

record SupabaseError =
  se_message :: string
  se_code :: "string option"

text \<open>
  \<^verbatim>\<open>handleSupabaseError\<close> never returns: the value here is the error it throws, and a
  caller that reaches it returns \<open>Inl\<close> of it.
\<close>

definition handleSupabaseError :: "remote_error \<Rightarrow> SupabaseError" where
  "handleSupabaseError error =
     \<lparr>se_message = or_default (err_message error) ''An unexpected error occurred'',
      se_code = err_code error\<rparr>"

text \<open>
  What an awaited call of the remote client resolves to, \<^verbatim>\<open>{ data, error }\<close>: the client
  types it as a success with data and a null error, or a failure with null data and an
  error.
\<close>

datatype 'a response = Success 'a | Failure remote_error

fun resp_data :: "'a response \<Rightarrow> 'a option" where
  "resp_data (Success d) = Some d"
| "resp_data (Failure _) = None"

fun resp_error :: "'a response \<Rightarrow> remote_error option" where
  "resp_error (Success _) = None"
| "resp_error (Failure e) = Some e"

subsection \<open>The query builder\<close>

text \<open>
  The request a query builder has accumulated. \<^verbatim>\<open>limit(n)\<close> sets the request's limit;
  \<^verbatim>\<open>range(from, to)\<close> is inclusive and sets the offset to \<^verbatim>\<open>from\<close> and the limit to
  \<^verbatim>\<open>to - from + 1\<close>, computed on numbers, replacing a limit set before.
\<close>

record 'v query_builder =
  qb_table :: string
  qb_select :: string
  qb_eq :: "(string \<times> 'v) list"
  qb_order :: "(string \<times> bool) option"
  qb_limit :: "number option"
  qb_offset :: "number option"

definition from_select :: "string \<Rightarrow> string \<Rightarrow> 'v query_builder" where
  "from_select table columns =
     \<lparr>qb_table = table, qb_select = columns, qb_eq = [], qb_order = None,
      qb_limit = None, qb_offset = None\<rparr>"

definition eq :: "string \<times> 'v \<Rightarrow> 'v query_builder \<Rightarrow> 'v query_builder" where
  "eq kv qb = qb\<lparr>qb_eq := qb_eq qb @ [kv]\<rparr>"

definition order :: "string \<Rightarrow> bool \<Rightarrow> 'v query_builder \<Rightarrow> 'v query_builder" where
  "order column ascending qb = qb\<lparr>qb_order := Some (column, ascending)\<rparr>"

definition limit :: "number \<Rightarrow> 'v query_builder \<Rightarrow> 'v query_builder" where
  "limit n qb = qb\<lparr>qb_limit := Some n\<rparr>"

definition range :: "number \<Rightarrow> number \<Rightarrow> 'v query_builder \<Rightarrow> 'v query_builder" where
  "range from to qb =
     qb\<lparr>qb_offset := Some from, qb_limit := Some (num_add (num_sub to from) (Finite 1))\<rparr>"

subsection \<open>The helpers\<close>

text \<open>
  Each helper awaits one call of the remote client; what the remote answers is an input of
  the helper, so the call is its first argument.

  \<^verbatim>\<open>if (error) handleSupabaseError(error); return result\<close>
\<close>

definition createRecord :: "(string \<Rightarrow> 'd \<Rightarrow> 'r response) \<Rightarrow> string \<Rightarrow> 'd \<Rightarrow> SupabaseError + 'r" where
  "createRecord insert_single table d =
     (case insert_single table d of
        Failure error \<Rightarrow> Inl (handleSupabaseError error)
      | Success result \<Rightarrow> Inr result)"

definition updateRecord ::
  "(string \<Rightarrow> 'd \<Rightarrow> string \<Rightarrow> 'r response) \<Rightarrow> string \<Rightarrow> string \<Rightarrow> 'd \<Rightarrow> SupabaseError + 'r" where
  "updateRecord update_single table ident d =
     (case update_single table d ident of
        Failure error \<Rightarrow> Inl (handleSupabaseError error)
      | Success result \<Rightarrow> Inr result)"

definition deleteRecord ::
  "(string \<Rightarrow> string \<Rightarrow> unit response) \<Rightarrow> string \<Rightarrow> string \<Rightarrow> SupabaseError + unit" where
  "deleteRecord delete_eq table ident =
     (case delete_eq table ident of
        Failure error \<Rightarrow> Inl (handleSupabaseError error)
      | Success _ \<Rightarrow> Inr ())"

text \<open>
  \<^verbatim>\<open>if (error && error.code !== 'PGRST116') handleSupabaseError(error); return data\<close>
\<close>

definition getRecord ::
  "(string \<Rightarrow> string \<Rightarrow> 'r response) \<Rightarrow> string \<Rightarrow> string \<Rightarrow> SupabaseError + 'r option" where
  "getRecord select_single table ident =
     (let res = select_single table ident;
          data = resp_data res;
          error = resp_error res
      in case error of
           Some e \<Rightarrow> if err_code e \<noteq> Some ''PGRST116'' then Inl (handleSupabaseError e)
                     else Inr data
         | None \<Rightarrow> Inr data)"

text \<open>
  The \<^verbatim>\<open>query\<close> argument of \<^verbatim>\<open>getRecords\<close>. \<^verbatim>\<open>filter\<close> is an object read with
  \<^verbatim>\<open>Object.entries\<close>, so the list of its pairs in the order \<^verbatim>\<open>Object.entries\<close> yields
  them; \<^verbatim>\<open>ascending\<close> may be left out; \<^verbatim>\<open>limit\<close> and \<^verbatim>\<open>offset\<close> are numbers.
\<close>

record 'v query_options =
  opt_select :: "string option"
  opt_filter :: "(string \<times> 'v) list option"
  opt_order :: "(string \<times> bool option) option"
  opt_limit :: "number option"
  opt_offset :: "number option"

text \<open>\<^verbatim>\<open>query.limit || 10\<close>\<close>

definition limit_or_10 :: "number option \<Rightarrow> number" where
  "limit_or_10 n = (case n of None \<Rightarrow> Finite 10 | Some k \<Rightarrow> if truthy_number k then k else Finite 10)"

text \<open>
  The query \<^verbatim>\<open>getRecords\<close> builds before it awaits it (supabase.ts, lines 250 to 270):
  one step for each of its four \<^verbatim>\<open>if\<close> statements, in their order.
\<close>

definition with_filter :: "'v query_options option \<Rightarrow> 'v query_builder \<Rightarrow> 'v query_builder" where
  "with_filter query qb =
     (case opt_field query opt_filter of
        None \<Rightarrow> qb
      | Some entries \<Rightarrow> fold eq entries qb)"

definition with_order :: "'v query_options option \<Rightarrow> 'v query_builder \<Rightarrow> 'v query_builder" where
  "with_order query qb =
     (case opt_field query opt_order of
        None \<Rightarrow> qb
      | Some (column, ascending) \<Rightarrow>
          order column (case ascending of None \<Rightarrow> True | Some a \<Rightarrow> a) qb)"

definition with_limit :: "'v query_options option \<Rightarrow> 'v query_builder \<Rightarrow> 'v query_builder" where
  "with_limit query qb =
     (case opt_field query opt_limit of
        None \<Rightarrow> qb
      | Some n \<Rightarrow> if truthy_number n then limit n qb else qb)"

definition with_offset :: "'v query_options option \<Rightarrow> 'v query_builder \<Rightarrow> 'v query_builder" where
  "with_offset query qb =
     (case opt_field query opt_offset of
        None \<Rightarrow> qb
      | Some k \<Rightarrow>
          if truthy_number k
          then range k
                 (num_sub (num_add k (limit_or_10 (opt_field query opt_limit))) (Finite 1)) qb
          else qb)"

definition getRecords_builder :: "string \<Rightarrow> 'v query_options option \<Rightarrow> 'v query_builder" where
  "getRecords_builder table query =
     with_offset query (with_limit query (with_order query (with_filter query
       (from_select table (or_default (opt_field query opt_select) ''*'')))))"

definition getRecords ::
  "('v query_builder \<Rightarrow> 'r list response) \<Rightarrow> string \<Rightarrow> 'v query_options option
     \<Rightarrow> SupabaseError + 'r list" where
  "getRecords select_rows table query =
     (case select_rows (getRecords_builder table query) of
        Failure error \<Rightarrow> Inl (handleSupabaseError error)
      | Success data \<Rightarrow> Inr data)"

text \<open>
  \<^verbatim>\<open>uploadFile\<close>: the upload answers with the stored path, and the public URL is asked for
  that path. \<^verbatim>\<open>options\<close> and its \<^verbatim>\<open>upsert\<close> may both be left out.
\<close>

definition uploadFile ::
  "(string \<Rightarrow> string \<Rightarrow> 'f \<Rightarrow> bool option option \<Rightarrow> string response)
     \<Rightarrow> (string \<Rightarrow> string \<Rightarrow> string)
     \<Rightarrow> string \<Rightarrow> string \<Rightarrow> 'f \<Rightarrow> bool option option \<Rightarrow> SupabaseError + string" where
  "uploadFile upload getPublicUrl bucket path file options =
     (case upload bucket path file options of
        Failure error \<Rightarrow> Inl (handleSupabaseError error)
      | Success data_path \<Rightarrow> Inr (getPublicUrl bucket data_path))"

definition deleteFile ::
  "(string \<Rightarrow> string list \<Rightarrow> unit response) \<Rightarrow> string \<Rightarrow> string \<Rightarrow> SupabaseError + unit" where
  "deleteFile remove bucket path =
     (case remove bucket [path] of
        Failure error \<Rightarrow> Inl (handleSupabaseError error)
      | Success _ \<Rightarrow> Inr ())"

subsection \<open>The remote's answer to a select\<close>

text \<open>
  The hosted database is outside the repository. Its answer to a select is taken as its
  interface documents it: of the rows that the table, the filters and the ordering
  determine, the request's offset skips the first rows and its limit bounds how many
  follow. \<open>rows\<close> gives the filtered and ordered rows of a request. An offset or a limit
  counts rows when it is a whole number from 0 that fits the database's 64-bit integers;
  what the remote answers to any other is not fixed here and is the parameter \<open>other\<close>.
\<close>

definition row_count :: "number \<Rightarrow> nat option" where
  "row_count n =
     (case n of
        Finite r \<Rightarrow> if 0 \<le> r \<and> r < 2 ^ 63 \<and> of_int \<lfloor>r\<rfloor> = r then Some (nat \<lfloor>r\<rfloor>) else None
      | _ \<Rightarrow> None)"

text \<open>A parameter of the request: left out, a count of rows, or (\<open>None\<close>) neither.\<close>

definition param :: "number option \<Rightarrow> nat option option" where
  "param p = (case p of None \<Rightarrow> Some None | Some n \<Rightarrow> map_option Some (row_count n))"

definition paginate :: "nat option \<Rightarrow> nat option \<Rightarrow> 'r list \<Rightarrow> 'r list" where
  "paginate skip bound rs =
     (let skipped = (case skip of None \<Rightarrow> rs | Some k \<Rightarrow> drop k rs)
      in case bound of None \<Rightarrow> skipped | Some n \<Rightarrow> take n skipped)"

definition result_set ::
  "(string \<Rightarrow> (string \<times> 'v) list \<Rightarrow> (string \<times> bool) option \<Rightarrow> 'r list)
     \<Rightarrow> 'v query_builder \<Rightarrow> 'r list" where
  "result_set rows qb = rows (qb_table qb) (qb_eq qb) (qb_order qb)"

definition remote_select ::
  "(string \<Rightarrow> (string \<times> 'v) list \<Rightarrow> (string \<times> bool) option \<Rightarrow> 'r list)
     \<Rightarrow> ('v query_builder \<Rightarrow> 'r list response)
     \<Rightarrow> 'v query_builder \<Rightarrow> 'r list response" where
  "remote_select rows other qb =
     (case (param (qb_offset qb), param (qb_limit qb)) of
        (Some skip, Some bound) \<Rightarrow> Success (paginate skip bound (result_set rows qb))
      | _ \<Rightarrow> other qb)"

text \<open>The rows at the positions \<open>from\<close> to \<open>to\<close>, both included, counted from 0.\<close>

definition slice :: "int \<Rightarrow> int \<Rightarrow> 'r list \<Rightarrow> 'r list" where
  "slice from to rs = take (nat (to - from + 1)) (drop (nat from) rs)"

section \<open>Signing in\<close>

record credentials =
  cred_email :: string
  cred_password :: string

text \<open>What \<^verbatim>\<open>signIn\<close> resolves to: \<^verbatim>\<open>result.success\<close> and \<^verbatim>\<open>result.message\<close>.\<close>

record auth_result =
  success :: bool
  message :: string

text \<open>
  What awaiting \<^verbatim>\<open>signIn\<close> does for its callers: it returns a result, or it throws an
  error that may carry a message (both callers have a \<^verbatim>\<open>catch\<close>).
\<close>

datatype signIn_outcome = Returned auth_result | Thrown "string option"

text \<open>\<^verbatim>\<open>login\<close> of AuthProvider (useAuth.tsx, lines 70 to 78).\<close>

definition login :: "signIn_outcome \<Rightarrow> bool" where
  "login outcome = (case outcome of Returned result \<Rightarrow> success result | Thrown _ \<Rightarrow> False)"

text \<open>
  \<^verbatim>\<open>handleSubmit\<close> of src/pages/auth/LoginPage.tsx: the page's alert texts after one
  submission, and whether it goes on to the dashboard.
\<close>

record login_page =
  lp_error :: "string option"
  lp_success :: "string option"
  lp_isLoading :: bool
  lp_navigate :: "string option"

definition handleSubmit :: "signIn_outcome \<Rightarrow> login_page" where
  "handleSubmit outcome =
     (case outcome of
        Returned result \<Rightarrow>
          if success result
          then \<lparr>lp_error = None, lp_success = Some (message result), lp_isLoading = False,
                lp_navigate = Some ''/dashboard''\<rparr>
          else \<lparr>lp_error = Some (message result), lp_success = None, lp_isLoading = False,
                lp_navigate = None\<rparr>
      | Thrown m \<Rightarrow>
          \<lparr>lp_error = Some (or_default m ''An error occurred. Please try again later.''),
           lp_success = None, lp_isLoading = False, lp_navigate = None\<rparr>)"

text \<open>
  Modelled from the spec: the state of the session hook of src/hooks/useSupabaseAuth.tsx
  that signing in touches. The specification has the session maintained by the remote auth
  service and mirrored locally, null when nobody is signed in; the count of requests sent
  is kept beside it to state that there is no retry.
\<close>

record auth_session =
  session_user :: auth_user

record hook_state =
  hs_session :: "auth_session option"
  hs_requests :: nat

text \<open>
  Modelled from the spec: \<^verbatim>\<open>signIn\<close> of src/hooks/useSupabaseAuth.tsx, which is not among
  the sources. The specification says that it delegates to the remote auth service, returns
  a success flag and a human-readable message, and does not retry; and that invalid
  credentials give \<^verbatim>\<open>success = false\<close>, a message that is not empty, and a session that
  remains null. So: one request; a refusal gives the remote's message (a fixed text when it
  has none) and leaves the session as it was; an acceptance stores the session.
\<close>

definition signIn ::
  "(credentials \<Rightarrow> auth_session response) \<Rightarrow> hook_state \<Rightarrow> credentials
     \<Rightarrow> auth_result \<times> hook_state" where
  "signIn signInWithPassword st cred =
     (case signInWithPassword cred of
        Failure e \<Rightarrow>
          (\<lparr>success = False, message = or_default (err_message e) ''Sign in failed''\<rparr>,
           st\<lparr>hs_requests := Suc (hs_requests st)\<rparr>)
      | Success s \<Rightarrow>
          (\<lparr>success = True, message = ''Signed in successfully''\<rparr>,
           st\<lparr>hs_session := Some s, hs_requests := Suc (hs_requests st)\<rparr>))"

text \<open>
  Modelled from the spec: the \<^verbatim>\<open>user\<close> the hook of src/hooks/useSupabaseAuth.tsx exposes,
  which is the session's when there is one.
\<close>

definition hook_user :: "hook_state \<Rightarrow> auth_user option" where
  "hook_user st = map_option session_user (hs_session st)"

section \<open>Concrete inputs\<close>

text \<open>An identity whose application metadata says admin and whose user metadata says patient.\<close>

definition admin_by_app_metadata :: auth_user where
  "admin_by_app_metadata =
     \<lparr>au_id = ''user-1'', au_email = Some ''ada@example.org'',
      au_user_metadata = Some \<lparr>um_full_name = Some ''Ada'', um_avatar_url = None,
                                um_role = Some ''patient''\<rparr>,
      au_app_metadata = Some \<lparr>am_role = Some ''admin''\<rparr>,
      au_created_at = ''2024-01-01''\<rparr>"

text \<open>An identity with an email and nothing else, and no profile row.\<close>

definition bare_user :: auth_user where
  "bare_user =
     \<lparr>au_id = ''user-3'', au_email = Some ''grace@example.org'', au_user_metadata = None,
      au_app_metadata = None, au_created_at = ''2024-01-01''\<rparr>"

text \<open>A finished session whose profile row carries the admin role.\<close>

definition admin_context :: auth_context where
  "admin_context =
     \<lparr>ctx_isAuthenticated = True, ctx_loading = False,
      ctx_user = AuthProvider_user
        (Some \<lparr>au_id = ''user-2'', au_email = Some ''root@example.org'',
               au_user_metadata = None, au_app_metadata = None,
               au_created_at = ''2024-01-01''\<rparr>)
        (Some \<lparr>pr_full_name = Some ''Root'', pr_email = None, pr_role = Some ''admin'',
               pr_avatar_url = None, pr_phone = None, pr_date_of_birth = None,
               pr_gender = None, pr_medical_license = None, pr_specialization = None,
               pr_department = None, pr_created_at = None, pr_updated_at = None\<rparr>)\<rparr>"

fun rendered_routes :: "app_rendered \<Rightarrow> route list" where
  "rendered_routes LoadingScreen = []"
| "rendered_routes (Routes rs) = rs"

text \<open>Remote answers: no row for a single-row fetch, and an error without message or code.\<close>

definition no_rows :: remote_error where
  "no_rows = \<lparr>err_message = Some ''JSON object requested, multiple (or no) rows returned'',
              err_code = Some ''PGRST116''\<rparr>"

definition bare_error :: remote_error where
  "bare_error = \<lparr>err_message = None, err_code = None\<rparr>"

definition fails2 :: "remote_error \<Rightarrow> 'a \<Rightarrow> 'b \<Rightarrow> 'r response" where
  "fails2 e x y = Failure e"

definition fails3 :: "remote_error \<Rightarrow> 'a \<Rightarrow> 'b \<Rightarrow> 'c \<Rightarrow> 'r response" where
  "fails3 e x y z = Failure e"

definition fails4 :: "remote_error \<Rightarrow> 'a \<Rightarrow> 'b \<Rightarrow> 'c \<Rightarrow> 'd \<Rightarrow> 'r response" where
  "fails4 e x y z w = Failure e"

definition fails_select :: "remote_error \<Rightarrow> string query_builder \<Rightarrow> nat list response" where
  "fails_select e qb = Failure e"

definition public_url :: "string \<Rightarrow> string \<Rightarrow> string" where
  "public_url bucket path = ''https://files.example.org/'' @ bucket @ ''/'' @ path"

text \<open>A table of twelve rows, whatever the filters and the ordering, and an empty query.\<close>

definition twelve_rows ::
  "string \<Rightarrow> (string \<times> string) list \<Rightarrow> (string \<times> bool) option \<Rightarrow> nat list" where
  "twelve_rows table filters ord_by = [0, 1, 2, 3, 4, 5, 6, 7, 8, 9, 10, 11]"

text \<open>A table of \<open>2 ^ 53 + 12\<close> equal rows.\<close>

definition huge_table ::
  "string \<Rightarrow> (string \<times> string) list \<Rightarrow> (string \<times> bool) option \<Rightarrow> nat list" where
  "huge_table table filters ord_by = replicate (2 ^ 53 + 12) 0"

definition no_options :: "string query_options" where
  "no_options =
     \<lparr>opt_select = None, opt_filter = None, opt_order = None, opt_limit = None,
      opt_offset = None\<rparr>"

text \<open>A remote auth service that refuses every sign-in, and a hook without a session.\<close>

definition reject_all :: "credentials \<Rightarrow> auth_session response" where
  "reject_all cred =
     Failure \<lparr>err_message = Some ''Invalid login credentials'',
              err_code = Some ''invalid_credentials''\<rparr>"

definition signed_out :: hook_state where
  "signed_out = \<lparr>hs_session = None, hs_requests = 0\<rparr>"

definition wrong_password :: credentials where
  "wrong_password = \<lparr>cred_email = ''ada@example.org'', cred_password = ''wrong''\<rparr>"

section \<open>The derived user view: role, name, email\<close>

lemma index0_split: "index0 (split c s) = Some (takeWhile (\<lambda>x. x \<noteq> c) s)"
  by (induction s) (auto split: list.splits)

lemma email_local_part_takeWhile:
  "email_local_part e = map_option (takeWhile (\<lambda>x. x \<noteq> CHR ''@'')) e"
  by (cases e) (simp_all add: email_local_part_def index0_split)

text \<open>
  \<^verbatim>\<open>getUserRole\<close> is where the application metadata comes first: its role when that is a
  non-empty string, else the user metadata's, else null.
\<close>

lemma getUserRole_precedence:
  "getUserRole (Some su) =
     (if truthy (opt_field (au_app_metadata su) am_role) then opt_field (au_app_metadata su) am_role
      else if truthy (opt_field (au_user_metadata su) um_role)
           then opt_field (au_user_metadata su) um_role
      else None)"
  by (simp add: getUserRole_def js_or_def truthy_def)

text \<open>
  C1 as stated fails: for an identity whose application metadata gives the role admin and
  whose user metadata gives patient, with no profile row, the derived user view shows
  patient, where the stated precedence gives admin.
\<close>

theorem derived_role_ignores_app_metadata:
  "map_option u_role (AuthProvider_user (Some admin_by_app_metadata) None) = Some ''patient''
   \<and> spec_role admin_by_app_metadata None = ''admin''"
  by (simp add: AuthProvider_user_def admin_by_app_metadata_def spec_role_def opt_field_def
      js_or_def truthy_def)

text \<open>
  C1, amended: for every authenticated session the derived user view exists and its role is
  the profile row's role when that is a non-empty string, else the user metadata's role when
  that is a non-empty string, else patient; the application metadata has no effect on it.
\<close>

theorem derived_role_precedence:
  "\<exists>u. AuthProvider_user (Some su) prof = Some u
     \<and> (truthy (opt_field prof pr_role) \<longrightarrow> Some (u_role u) = opt_field prof pr_role)
     \<and> (\<not> truthy (opt_field prof pr_role) \<and> truthy (opt_field (au_user_metadata su) um_role)
          \<longrightarrow> Some (u_role u) = opt_field (au_user_metadata su) um_role)
     \<and> (\<not> truthy (opt_field prof pr_role) \<and> \<not> truthy (opt_field (au_user_metadata su) um_role)
          \<longrightarrow> u_role u = ''patient'')
     \<and> map_option u_role (AuthProvider_user (Some (su\<lparr>au_app_metadata := am\<rparr>)) prof)
         = Some (u_role u)"
  by (auto simp: AuthProvider_user_def js_or_def truthy_def split: option.splits)

text \<open>The amended C1 at the identity above: the user metadata's role is shown.\<close>

theorem derived_role_precedence_witness:
  "opt_field (au_user_metadata admin_by_app_metadata) um_role = Some ''patient''
   \<and> map_option u_role (AuthProvider_user (Some admin_by_app_metadata) None) = Some ''patient''
   \<and> map_option u_role
         (AuthProvider_user (Some (admin_by_app_metadata\<lparr>au_app_metadata := None\<rparr>)) None)
       = Some ''patient''"
  using derived_role_precedence [of admin_by_app_metadata None None]
  by (auto simp: admin_by_app_metadata_def opt_field_def truthy_def)

text \<open>
  C10: for every authenticated session the derived user view exists. Its name is the
  profile's full name, else the auth metadata's full name, else the part of the email before
  the first \<^verbatim>\<open>@\<close>, else \<^verbatim>\<open>User\<close>, each step taken when the one before is missing or empty; so
  the name is never empty. Its email is the profile's, else the auth email, else the empty
  string. And \<^verbatim>\<open>isAuthenticated\<close> holds exactly when the auth user's id is not empty, with or
  without a profile row.
\<close>

theorem derived_user_fallbacks:
  fixes su :: auth_user and prof :: "profile option"
  defines "pn \<equiv> opt_field prof pr_full_name"
    and "mn \<equiv> opt_field (au_user_metadata su) um_full_name"
    and "lp \<equiv> map_option (takeWhile (\<lambda>x. x \<noteq> CHR ''@'')) (au_email su)"
    and "pe \<equiv> opt_field prof pr_email"
  shows "\<exists>u. AuthProvider_user (Some su) prof = Some u
     \<and> (truthy pn \<longrightarrow> Some (u_name u) = pn)
     \<and> (\<not> truthy pn \<and> truthy mn \<longrightarrow> Some (u_name u) = mn)
     \<and> (\<not> truthy pn \<and> \<not> truthy mn \<and> truthy lp \<longrightarrow> Some (u_name u) = lp)
     \<and> (\<not> truthy pn \<and> \<not> truthy mn \<and> \<not> truthy lp \<longrightarrow> u_name u = ''User'')
     \<and> u_name u \<noteq> []
     \<and> (truthy pe \<longrightarrow> Some (u_email u) = pe)
     \<and> (\<not> truthy pe \<and> truthy (au_email su) \<longrightarrow> Some (u_email u) = au_email su)
     \<and> (\<not> truthy pe \<and> \<not> truthy (au_email su) \<longrightarrow> u_email u = [])
     \<and> (AuthProvider_isAuthenticated (Some su) \<longleftrightarrow> au_id su \<noteq> [])
     \<and> (au_id su \<noteq> [] \<longrightarrow>
          AuthProvider_isAuthenticated (Some su) \<and> AuthProvider_user (Some su) None \<noteq> None)"
  unfolding pn_def mn_def lp_def pe_def
  by (auto simp: AuthProvider_user_def AuthProvider_isAuthenticated_def
      email_local_part_takeWhile js_or_def truthy_def split: option.splits)

text \<open>
  C10 at an identity with only an email and no profile row: the name is the email's local
  part, the email is the auth email, and the viewer counts as authenticated.
\<close>

theorem derived_user_fallbacks_witness:
  "map_option u_name (AuthProvider_user (Some bare_user) None) = Some ''grace''
   \<and> map_option u_email (AuthProvider_user (Some bare_user) None) = Some ''grace@example.org''
   \<and> AuthProvider_isAuthenticated (Some bare_user)"
  using derived_user_fallbacks [of bare_user None]
  by (auto simp: bare_user_def opt_field_def truthy_def)

section \<open>The route guard and the route table\<close>

text \<open>
  C2: whatever the authentication value and the redirect path, the route guard renders the
  loading state when \<^verbatim>\<open>loading\<close> is true; when \<^verbatim>\<open>loading\<close> is false or left out, it redirects
  a viewer without a session to the redirect path, which is \<^verbatim>\<open>/login\<close> unless another is
  given, and renders the protected children for a viewer with a session.
\<close>

theorem ProtectedRoute_cases:
  "(loading props = Some True \<longrightarrow> ProtectedRoute props = LoadingSpinner)
   \<and> (loading props \<noteq> Some True \<and> \<not> isAuthenticated props \<longrightarrow>
        ProtectedRoute props
          = Navigate (case redirectPath props of None \<Rightarrow> ''/login'' | Some p \<Rightarrow> p))
   \<and> (loading props \<noteq> Some True \<and> isAuthenticated props \<longrightarrow> ProtectedRoute props = Outlet)"
  by (auto simp: ProtectedRoute_def split: option.splits)

text \<open>C2 at the four pairs of loading and authentication, with the default redirect path.\<close>

theorem ProtectedRoute_cases_witness:
  "ProtectedRoute \<lparr>isAuthenticated = False, loading = Some True, redirectPath = None\<rparr>
     = LoadingSpinner
   \<and> ProtectedRoute \<lparr>isAuthenticated = True, loading = Some True, redirectPath = None\<rparr>
     = LoadingSpinner
   \<and> ProtectedRoute \<lparr>isAuthenticated = False, loading = Some False, redirectPath = None\<rparr>
     = Navigate ''/login''
   \<and> ProtectedRoute \<lparr>isAuthenticated = True, loading = Some False, redirectPath = None\<rparr>
     = Outlet"
  using
    ProtectedRoute_cases [of "\<lparr>isAuthenticated = False, loading = Some True, redirectPath = None\<rparr>"]
    ProtectedRoute_cases [of "\<lparr>isAuthenticated = True, loading = Some True, redirectPath = None\<rparr>"]
    ProtectedRoute_cases [of "\<lparr>isAuthenticated = False, loading = Some False, redirectPath = None\<rparr>"]
    ProtectedRoute_cases [of "\<lparr>isAuthenticated = True, loading = Some False, redirectPath = None\<rparr>"]
  by simp

lemma protected_paths_App:
  assumes "App ctx = Routes rs"
  shows "protected_paths rs =
     [''/dashboard'', ''/appointments'', ''/consultation/:id'', ''/medical-records'',
      ''/chat'', ''/chat/:channelUrl'', ''/chatbot'', ''/prescriptions'', ''/notifications'',
      ''/profile''] @ (if isAdmin ctx then [''/admin''] else [])"
  using assms
  by (cases "isAdmin ctx"; cases "ctx_loading ctx")
     (auto simp: App_def protected_paths_def mounted_routes_def join_path_def)

lemma public_paths_App:
  assumes "App ctx = Routes rs"
  shows "public_paths rs =
     [''/'', ''/'', ''/login'', ''/register'', ''/auth/verify'', ''/auth/confirm'', ''/verify'',
      ''/reset-password'', ''/auth/reset-password'']"
  using assms
  by (cases "isAdmin ctx"; cases "ctx_loading ctx")
     (auto simp: App_def public_paths_def mounted_routes_def join_path_def)

lemma mounted_paths_App:
  assumes "App ctx = Routes rs"
  shows "map fst (mounted_routes rs) =
     [''/'', ''/'', ''/login'', ''/register'', ''/auth/verify'', ''/auth/confirm'', ''/verify'',
      ''/reset-password'', ''/auth/reset-password'', ''/'',
      ''/dashboard'', ''/appointments'', ''/consultation/:id'', ''/medical-records'',
      ''/chat'', ''/chat/:channelUrl'', ''/chatbot'', ''/prescriptions'', ''/notifications'',
      ''/profile''] @ (if isAdmin ctx then [''/admin''] else [])"
  using assms
  by (cases "isAdmin ctx"; cases "ctx_loading ctx")
     (auto simp: App_def mounted_routes_def join_path_def)

text \<open>
  C8: in every route table that \<^verbatim>\<open>App\<close> renders, \<^verbatim>\<open>/admin\<close> is mounted inside the protected
  subtree exactly when there is a derived user whose role is admin, and it is never mounted
  outside the protected subtree; the table has an \<^verbatim>\<open>/admin\<close> route at all only for such a
  user, so for a user with any other role there is none.
\<close>

theorem admin_route_gated:
  assumes "App ctx = Routes rs"
  shows "(''/admin'' \<in> set (protected_paths rs)
            \<longleftrightarrow> (\<exists>u. ctx_user ctx = Some u \<and> u_role u = ''admin''))
         \<and> ''/admin'' \<notin> set (public_paths rs)
         \<and> (''/admin'' \<in> set (map fst (mounted_routes rs))
            \<longleftrightarrow> (\<exists>u. ctx_user ctx = Some u \<and> u_role u = ''admin''))"
proof -
  have "isAdmin ctx \<longleftrightarrow> (\<exists>u. ctx_user ctx = Some u \<and> u_role u = ''admin'')"
    by (simp add: isAdmin_def split: option.splits)
  then show ?thesis
    by (simp add: protected_paths_App [OF assms] public_paths_App [OF assms]
        mounted_paths_App [OF assms])
qed

text \<open>C8 for a finished session whose profile row carries the admin role.\<close>

theorem admin_route_gated_witness:
  "App admin_context = Routes (rendered_routes (App admin_context))
   \<and> ''/admin'' \<in> set (protected_paths (rendered_routes (App admin_context)))
   \<and> ''/admin'' \<notin> set (public_paths (rendered_routes (App admin_context)))"
proof -
  have rs: "App admin_context = Routes (rendered_routes (App admin_context))"
    by (simp add: App_def admin_context_def)
  have "\<exists>u. ctx_user admin_context = Some u \<and> u_role u = ''admin''"
    by (simp add: admin_context_def AuthProvider_user_def opt_field_def js_or_def truthy_def)
  with admin_route_gated [OF rs] rs show ?thesis by blast
qed

section \<open>The backend access layer: errors\<close>

text \<open>
  C4: when the remote answers a single-row fetch with the error code PGRST116,
  \<^verbatim>\<open>getRecord\<close> raises nothing and returns null; for an error with any other code, or with
  no code, it raises the structured error; and a row that was found is returned.
\<close>

theorem getRecord_not_found:
  "(select_single table ident = Failure e \<and> err_code e = Some ''PGRST116''
      \<longrightarrow> getRecord select_single table ident = Inr None)
   \<and> (select_single table ident = Failure e \<and> err_code e \<noteq> Some ''PGRST116''
      \<longrightarrow> getRecord select_single table ident
            = Inl \<lparr>se_message = or_default (err_message e) ''An unexpected error occurred'',
                   se_code = err_code e\<rparr>)
   \<and> (select_single table ident = Success row
      \<longrightarrow> getRecord select_single table ident = Inr (Some row))"
  by (simp add: getRecord_def handleSupabaseError_def)

text \<open>C4 at a remote with no such row, and at a remote whose error has no code.\<close>

theorem getRecord_not_found_witness:
  "getRecord (fails2 no_rows :: string \<Rightarrow> string \<Rightarrow> nat response) ''profiles'' ''42'' = Inr None
   \<and> getRecord (fails2 bare_error :: string \<Rightarrow> string \<Rightarrow> nat response) ''profiles'' ''42''
       = Inl \<lparr>se_message = ''An unexpected error occurred'', se_code = None\<rparr>"
  using
    getRecord_not_found [of "fails2 no_rows :: string \<Rightarrow> string \<Rightarrow> nat response"
      "''profiles''" "''42''" no_rows]
    getRecord_not_found [of "fails2 bare_error :: string \<Rightarrow> string \<Rightarrow> nat response"
      "''profiles''" "''42''" bare_error]
  by (simp add: fails2_def no_rows_def bare_error_def)

text \<open>
  C6: when the remote answers with an error, each of \<^verbatim>\<open>createRecord\<close>, \<^verbatim>\<open>updateRecord\<close>,
  \<^verbatim>\<open>deleteRecord\<close>, \<^verbatim>\<open>getRecords\<close>, \<^verbatim>\<open>uploadFile\<close> and \<^verbatim>\<open>deleteFile\<close> raises the same
  structured error: its message is the remote's message, or the default text when the
  remote gave none or an empty one, so it is never empty; its code is the remote's code,
  which may be missing; and it carries nothing else.
\<close>

theorem helpers_raise_structured_error:
  fixes e :: remote_error
  defines "raised \<equiv>
    \<lparr>se_message = (case err_message e of
                     None \<Rightarrow> ''An unexpected error occurred''
                   | Some m \<Rightarrow> if m = [] then ''An unexpected error occurred'' else m),
     se_code = err_code e\<rparr>"
  shows "(insert_single table d = Failure e
            \<longrightarrow> createRecord insert_single table d = Inl raised)
   \<and> (update_single table d ident = Failure e
            \<longrightarrow> updateRecord update_single table ident d = Inl raised)
   \<and> (delete_eq table ident = Failure e
            \<longrightarrow> deleteRecord delete_eq table ident = Inl raised)
   \<and> (select_rows (getRecords_builder table query) = Failure e
            \<longrightarrow> getRecords select_rows table query = Inl raised)
   \<and> (upload bucket path content options = Failure e
            \<longrightarrow> uploadFile upload getPublicUrl bucket path content options = Inl raised)
   \<and> (remove bucket [path] = Failure e
            \<longrightarrow> deleteFile remove bucket path = Inl raised)
   \<and> se_message raised \<noteq> []"
  unfolding raised_def
  by (cases "err_message e")
     (simp_all add: createRecord_def updateRecord_def deleteRecord_def getRecords_def
      uploadFile_def deleteFile_def handleSupabaseError_def)

text \<open>
  C6 at a database error with a message and a code, and at a storage error with neither.
\<close>

theorem helpers_raise_structured_error_witness:
  "createRecord (fails2 no_rows :: string \<Rightarrow> unit \<Rightarrow> nat response) ''profiles'' ()
     = Inl \<lparr>se_message = ''JSON object requested, multiple (or no) rows returned'',
            se_code = Some ''PGRST116''\<rparr>
   \<and> updateRecord (fails3 no_rows :: string \<Rightarrow> unit \<Rightarrow> string \<Rightarrow> nat response)
       ''profiles'' ''42'' ()
     = Inl \<lparr>se_message = ''JSON object requested, multiple (or no) rows returned'',
            se_code = Some ''PGRST116''\<rparr>
   \<and> deleteRecord (fails2 no_rows) ''profiles'' ''42''
     = Inl \<lparr>se_message = ''JSON object requested, multiple (or no) rows returned'',
            se_code = Some ''PGRST116''\<rparr>
   \<and> getRecords (fails_select no_rows) ''profiles'' None
     = Inl \<lparr>se_message = ''JSON object requested, multiple (or no) rows returned'',
            se_code = Some ''PGRST116''\<rparr>
   \<and> uploadFile (fails4 bare_error :: string \<Rightarrow> string \<Rightarrow> unit \<Rightarrow> bool option option
                                        \<Rightarrow> string response)
       public_url ''avatars'' ''a.png'' () None
     = Inl \<lparr>se_message = ''An unexpected error occurred'', se_code = None\<rparr>
   \<and> deleteFile (fails2 bare_error) ''avatars'' ''a.png''
     = Inl \<lparr>se_message = ''An unexpected error occurred'', se_code = None\<rparr>"
  using
    helpers_raise_structured_error
      [where e = no_rows
         and insert_single = "fails2 no_rows :: string \<Rightarrow> unit \<Rightarrow> nat response"
         and update_single = "fails3 no_rows :: string \<Rightarrow> unit \<Rightarrow> string \<Rightarrow> nat response"
         and delete_eq = "fails2 no_rows" and select_rows = "fails_select no_rows"
         and table = "''profiles''" and ident = "''42''" and d = "()" and query = None
         and upload = "fails4 no_rows :: string \<Rightarrow> string \<Rightarrow> unit \<Rightarrow> bool option option
                                           \<Rightarrow> string response"
         and remove = "fails2 no_rows" and bucket = "''avatars''" and path = "''a.png''"
         and content = "()" and options = None and getPublicUrl = public_url]
    helpers_raise_structured_error
      [where e = bare_error
         and insert_single = "fails2 bare_error :: string \<Rightarrow> unit \<Rightarrow> nat response"
         and update_single = "fails3 bare_error :: string \<Rightarrow> unit \<Rightarrow> string \<Rightarrow> nat response"
         and delete_eq = "fails2 bare_error" and select_rows = "fails_select bare_error"
         and table = "''profiles''" and ident = "''42''" and d = "()" and query = None
         and upload = "fails4 bare_error :: string \<Rightarrow> string \<Rightarrow> unit \<Rightarrow> bool option option
                                             \<Rightarrow> string response"
         and remove = "fails2 bare_error" and bucket = "''avatars''" and path = "''a.png''"
         and content = "()" and options = None and getPublicUrl = public_url]
  by (simp add: fails2_def fails3_def fails4_def fails_select_def no_rows_def bare_error_def)

section \<open>Numbers: whole numbers up to \<open>2 ^ 53\<close> are exact\<close>

lemma bitlen_one: "bitlen 1 = 1"
  by (subst compute_bitlen) simp

lemma floor_log2_int:
  assumes "0 < x"
  shows "floor_log2 (of_int x) = bitlen x - 1"
proof -
  have b: "2 ^ nat (bitlen x - 1) \<le> x" using bitlen_bounds [OF assms] by simp
  have p: "0 \<le> bitlen x - 1" using assms by (simp add: bitlen_alt_def)
  have "(2::rat) powi (bitlen x - 1) = of_int (2 ^ nat (bitlen x - 1))"
    using p by (simp add: power_int_def)
  also have "\<dots> \<le> of_int x" using b by (simp only: of_int_le_iff)
  finally show ?thesis
    by (simp add: floor_log2_def bitlen_one)
qed

lemma round_half_even_int: "round_half_even (of_int k) = k"
  by (simp add: round_half_even_def)

lemma round_double_pos:
  assumes "0 < a" and "a \<le> 2 ^ 53"
  shows "round_double (of_int a) = Finite (of_int a)"
    and "round_double (- of_int a) = Finite (- of_int a)"
proof -
  define e where "e = bitlen a - 1"
  have e0: "0 \<le> e" using assms(1) by (simp add: e_def bitlen_alt_def)
  have lo: "2 ^ nat e \<le> a" and hi: "a < 2 ^ nat (e + 1)"
    using bitlen_bounds [OF assms(1)] by (simp_all add: e_def)
  have le: "(2::int) ^ nat e \<le> 2 ^ 53" using lo assms(2) by simp
  have "nat e \<le> 53"
    by (rule power_le_imp_le_exp [of "2::int"]) (use le in simp_all)
  then have e53: "e \<le> 53" by simp
  have abs_a: "\<bar>rat_of_int a\<bar> = of_int a" "\<bar>- rat_of_int a\<bar> = of_int a"
    using assms(1) by simp_all
  have fl: "floor_log2 (of_int a) = e"
    using floor_log2_int [OF assms(1)] by (simp add: e_def)
  have p: "max (e - 52) (- 1074) = e - 52" using e0 by simp
  have v: "of_int (round_half_even (rat_of_int a / 2 powi (e - 52))) * 2 powi (e - 52)
             = rat_of_int a"
  proof (cases "e \<le> 52")
    case True
    then have "rat_of_int a / 2 powi (e - 52) = of_int (a * 2 ^ nat (52 - e))"
      by (simp add: power_int_def field_simps)
    then have "round_half_even (rat_of_int a / 2 powi (e - 52)) = a * 2 ^ nat (52 - e)"
      by (simp only: round_half_even_int)
    with True show ?thesis
      by (simp add: power_int_def field_simps)
  next
    case False
    with e53 have e: "e = 53" by simp
    with lo assms(2) have a: "a = 2 ^ 53" by simp
    have "rat_of_int a / 2 powi (e - 52) = of_int (2 ^ 52)"
      by (simp add: e a)
    then have "round_half_even (rat_of_int a / 2 powi (e - 52)) = 2 ^ 52"
      by (simp only: round_half_even_int)
    then show ?thesis by (simp add: e a)
  qed
  have small: "\<not> (2::rat) ^ 1024 \<le> rat_of_int a"
  proof -
    have "rat_of_int a \<le> of_int (2 ^ 53)" using assms(2) by (simp only: of_int_le_iff)
    also have "\<dots> < 2 ^ 1024" by simp
    finally show ?thesis by simp
  qed
  show "round_double (of_int a) = Finite (of_int a)"
    unfolding round_double_def Let_def abs_a fl p v
    using assms(1) small by simp
  show "round_double (- of_int a) = Finite (- of_int a)"
    unfolding round_double_def Let_def abs_a fl p v
    using assms(1) small by simp
qed

lemma round_double_whole:
  assumes "\<bar>x\<bar> \<le> 2 ^ 53"
  shows "round_double (of_int x) = Finite (of_int x)"
proof -
  consider "x = 0" | "0 < x" | "x < 0" by linarith
  then show ?thesis
  proof cases
    case 1
    then show ?thesis by (simp add: round_double_def)
  next
    case 2
    with assms round_double_pos(1) [of x] show ?thesis by simp
  next
    case 3
    with assms round_double_pos(2) [of "- x"] show ?thesis by simp
  qed
qed

lemma num_add_whole:
  "\<bar>a + b\<bar> \<le> 2 ^ 53 \<Longrightarrow>
   num_add (Finite (of_int a)) (Finite (of_int b)) = Finite (of_int (a + b))"
  using round_double_whole [of "a + b"] by simp

lemma num_sub_whole:
  "\<bar>a - b\<bar> \<le> 2 ^ 53 \<Longrightarrow>
   num_sub (Finite (of_int a)) (Finite (of_int b)) = Finite (of_int (a - b))"
  using round_double_whole [of "a - b"] by (simp add: num_sub_def)

text \<open>
  The arithmetic of \<^verbatim>\<open>getRecords\<close> and \<^verbatim>\<open>range\<close> on whole numbers in the exact range:
  \<^verbatim>\<open>to = offset + limit - 1\<close>, then \<^verbatim>\<open>to - offset + 1\<close>, which is the limit again.
\<close>

lemma page_size_whole:
  assumes "\<bar>k + n\<bar> \<le> 2 ^ 53" "\<bar>k + n - 1\<bar> \<le> 2 ^ 53" "\<bar>n - 1\<bar> \<le> 2 ^ 53" "\<bar>n\<bar> \<le> 2 ^ 53"
  shows "num_add
           (num_sub (num_sub (num_add (Finite (of_int k)) (Finite (of_int n))) (Finite 1))
                    (Finite (of_int k)))
           (Finite 1)
         = Finite (of_int n)"
proof -
  have one: "Finite 1 = Finite (of_int 1)" by simp
  have 1: "num_add (Finite (of_int k)) (Finite (of_int n)) = Finite (of_int (k + n))"
    by (rule num_add_whole) fact
  have 2: "num_sub (Finite (of_int (k + n))) (Finite (of_int 1)) = Finite (of_int (k + n - 1))"
    by (rule num_sub_whole) fact
  have 3: "num_sub (Finite (of_int (k + n - 1))) (Finite (of_int k)) = Finite (of_int (n - 1))"
    using num_sub_whole [of "k + n - 1" k] assms(3) by simp
  have 4: "num_add (Finite (of_int (n - 1))) (Finite (of_int 1)) = Finite (of_int n)"
    using num_add_whole [of "n - 1" 1] assms(4) by simp
  show ?thesis
    unfolding one 1 2 3 4 ..
qed

lemma round_half_even_le: "round_half_even x \<le> \<lfloor>x\<rfloor> + 1"
  by (simp add: round_half_even_def Let_def)

lemma round_half_even_halves:
  "round_half_even (of_int (2 * m) / 2) = m"
  "round_half_even (of_int (2 * m + 1) / 2) = (if even m then m else m + 1)"
proof -
  have "rat_of_int (2 * m) / 2 = of_int m" by simp
  then show "round_half_even (of_int (2 * m) / 2) = m"
    by (simp only: round_half_even_int)
  have x: "rat_of_int (2 * m + 1) / 2 = of_int m + 1 / 2" by (simp add: field_simps)
  have "\<lfloor>rat_of_int m + 1 / 2\<rfloor> = m" by (rule floor_unique) simp_all
  then show "round_half_even (of_int (2 * m + 1) / 2) = (if even m then m else m + 1)"
    unfolding x by (simp add: round_half_even_def Let_def)
qed

text \<open>From \<open>2 ^ 53\<close> to \<open>2 ^ 54\<close> the doubles are the even whole numbers.\<close>

lemma round_double_2_53:
  assumes "2 ^ 53 \<le> a" and "a < 2 ^ 54"
  shows "round_double (of_int a) = Finite (of_int (round_half_even (of_int a / 2)) * 2)"
proof -
  have pos: "0 < a" using assms(1) by simp
  have "bitlen a \<le> 54" "\<not> bitlen a \<le> 53"
    using assms by (simp_all add: bitlen_le_iff_power)
  then have "bitlen a = 54" by simp
  then have fl: "floor_log2 (of_int a) = 53"
    using floor_log2_int [OF pos] by simp
  have abs_a: "\<bar>rat_of_int a\<bar> = of_int a" using pos by simp
  have p: "max (53 - 52) (- 1074) = (1::int)" by simp
  have "rat_of_int a < of_int (2 ^ 54)" using assms(2) by (simp only: of_int_less_iff)
  then have "rat_of_int a / 2 < of_int (2 ^ 53)" by simp
  then have "\<lfloor>rat_of_int a / 2\<rfloor> < 2 ^ 53" by (simp only: floor_less_iff)
  with round_half_even_le [of "rat_of_int a / 2"]
  have "round_half_even (rat_of_int a / 2) \<le> 2 ^ 53" by linarith
  then have "rat_of_int (round_half_even (rat_of_int a / 2)) \<le> of_int (2 ^ 53)"
    by (simp only: of_int_le_iff)
  then have small: "\<not> (2::rat) ^ 1024 \<le> of_int (round_half_even (rat_of_int a / 2)) * 2"
    by simp
  have pw: "(2::rat) powi 1 = 2" by simp
  show ?thesis
    unfolding round_double_def Let_def abs_a fl p pw
    using pos small by simp
qed

lemma round_double_near_2_53:
  "round_double 9007199254741002 = Finite 9007199254741002"
  "round_double 9007199254741001 = Finite 9007199254741000"
  "round_double 9007199254740995 = Finite 9007199254740996"
proof -
  have "round_double (of_int (2 * 4503599627370501))
      = Finite (of_int (round_half_even (of_int (2 * 4503599627370501) / 2)) * 2)"
    by (rule round_double_2_53) simp_all
  then show "round_double 9007199254741002 = Finite 9007199254741002"
    unfolding round_half_even_halves by simp
  have "round_double (of_int (2 * 4503599627370500 + 1))
      = Finite (of_int (round_half_even (of_int (2 * 4503599627370500 + 1) / 2)) * 2)"
    by (rule round_double_2_53) simp_all
  then show "round_double 9007199254741001 = Finite 9007199254741000"
    unfolding round_half_even_halves by simp
  have "round_double (of_int (2 * 4503599627370497 + 1))
      = Finite (of_int (round_half_even (of_int (2 * 4503599627370497 + 1) / 2)) * 2)"
    by (rule round_double_2_53) simp_all
  then show "round_double 9007199254740995 = Finite 9007199254740996"
    unfolding round_half_even_halves by simp
qed

lemma round_double_small:
  "round_double 4 = Finite 4" "round_double 5 = Finite 5"
  "round_double 8 = Finite 8" "round_double 9 = Finite 9"
  using round_double_whole [of 4] round_double_whole [of 5]
    round_double_whole [of 8] round_double_whole [of 9]
  by simp_all

text \<open>At \<open>2 ^ 53\<close> the arithmetic of \<^verbatim>\<open>getRecords\<close> and \<^verbatim>\<open>range\<close> rounds.\<close>

lemma page_size_rounds:
  "num_add (num_sub (num_sub (num_add (Finite (2 ^ 53)) (Finite 10)) (Finite 1))
                    (Finite (2 ^ 53)))
           (Finite 1)
     = Finite 9"
  "num_add (num_sub (num_sub (num_add (Finite (2 ^ 53)) (Finite 3)) (Finite 1))
                    (Finite (2 ^ 53)))
           (Finite 1)
     = Finite 5"
  by (simp_all add: num_sub_def round_double_near_2_53 round_double_small)

lemma row_count_whole: "0 \<le> k \<Longrightarrow> k < 2 ^ 63 \<Longrightarrow> row_count (Finite (of_int k)) = Some (nat k)"
proof -
  assume "0 \<le> k" "k < 2 ^ 63"
  then have "rat_of_int k < of_int (2 ^ 63)" by (simp only: of_int_less_iff)
  with \<open>0 \<le> k\<close> show ?thesis by (simp add: row_count_def)
qed

section \<open>The backend access layer: limit and offset\<close>

lemma fold_eq_fields:
  "qb_table (fold eq es qb) = qb_table qb"
  "qb_select (fold eq es qb) = qb_select qb"
  "qb_order (fold eq es qb) = qb_order qb"
  "qb_limit (fold eq es qb) = qb_limit qb"
  "qb_offset (fold eq es qb) = qb_offset qb"
  "qb_eq (fold eq es qb) = qb_eq qb @ es"
  by (induction es arbitrary: qb) (simp_all add: eq_def)

text \<open>What the built query asks for: the table, the columns, the filters and the ordering ...\<close>

lemma builder_fields:
  "qb_table (getRecords_builder table (Some q)) = table"
  "qb_eq (getRecords_builder table (Some q)) = (case opt_filter q of None \<Rightarrow> [] | Some es \<Rightarrow> es)"
  "qb_order (getRecords_builder table (Some q))
     = (case opt_order q of None \<Rightarrow> None
        | Some (c, a) \<Rightarrow> Some (c, case a of None \<Rightarrow> True | Some b \<Rightarrow> b))"
  "qb_select (getRecords_builder table (Some q)) = or_default (opt_select q) ''*''"
  by (simp_all add: getRecords_builder_def with_offset_def with_limit_def with_order_def
      with_filter_def opt_field_def from_select_def order_def limit_def range_def
      fold_eq_fields split: option.split prod.split)

text \<open>... and the offset and the limit.\<close>

lemma builder_paging:
  "qb_offset (getRecords_builder table (Some q))
     = (case opt_offset q of None \<Rightarrow> None | Some k \<Rightarrow> if truthy_number k then Some k else None)"
  "qb_limit (getRecords_builder table (Some q))
     = (if (case opt_offset q of None \<Rightarrow> False | Some k \<Rightarrow> truthy_number k)
        then map_option
               (\<lambda>k. num_add (num_sub (num_sub (num_add k (limit_or_10 (opt_limit q))) (Finite 1)) k)
                      (Finite 1))
               (opt_offset q)
        else (case opt_limit q of
                None \<Rightarrow> None
              | Some n \<Rightarrow> if truthy_number n then Some n else None))"
  by (simp_all add: getRecords_builder_def with_offset_def with_limit_def with_order_def
      with_filter_def opt_field_def from_select_def order_def limit_def range_def
      fold_eq_fields split: option.split prod.split)

lemma builder_explicit:
  "getRecords_builder table (Some q) =
     \<lparr>qb_table = table,
      qb_select = or_default (opt_select q) ''*'',
      qb_eq = (case opt_filter q of None \<Rightarrow> [] | Some es \<Rightarrow> es),
      qb_order = (case opt_order q of None \<Rightarrow> None
                  | Some (c, a) \<Rightarrow> Some (c, case a of None \<Rightarrow> True | Some b \<Rightarrow> b)),
      qb_limit = qb_limit (getRecords_builder table (Some q)),
      qb_offset = qb_offset (getRecords_builder table (Some q))\<rparr>"
  by (rule query_builder.equality) (simp_all add: builder_fields)

lemma builder_limit_zero:
  "getRecords_builder table (Some (q\<lparr>opt_limit := Some (Finite 0)\<rparr>))
     = getRecords_builder table (Some (q\<lparr>opt_limit := None\<rparr>))"
  by (cases "opt_offset q")
     (simp_all add: getRecords_builder_def with_offset_def with_limit_def with_order_def
      with_filter_def opt_field_def limit_or_10_def)

lemma builder_offset_zero:
  "getRecords_builder table (Some (q\<lparr>opt_offset := Some (Finite 0)\<rparr>))
     = getRecords_builder table (Some (q\<lparr>opt_offset := None\<rparr>))"
  by (simp add: getRecords_builder_def with_offset_def with_limit_def with_order_def
      with_filter_def opt_field_def)

text \<open>What \<^verbatim>\<open>getRecords\<close> returns against the remote, from the offset and limit it requests.\<close>

lemma getRecords_remote:
  assumes "qb_offset (getRecords_builder table (Some q)) = skip"
    and "qb_limit (getRecords_builder table (Some q)) = bound"
    and "param skip = Some s" and "param bound = Some b"
  shows "getRecords (remote_select rows other) table (Some q)
     = Inr (paginate s b
         (rows table (case opt_filter q of None \<Rightarrow> [] | Some es \<Rightarrow> es)
            (case opt_order q of None \<Rightarrow> None
             | Some (c, a) \<Rightarrow> Some (c, case a of None \<Rightarrow> True | Some b \<Rightarrow> b))))"
  using assms
  by (simp add: getRecords_def remote_select_def result_set_def builder_fields)


lemma getRecords_default_page:
  assumes "0 < k" "k + 10 \<le> 2 ^ 53" and "l = None \<or> l = Some (Finite 0)"
  shows "getRecords (remote_select rows other) table
           (Some (q\<lparr>opt_limit := l, opt_offset := Some (Finite (of_int k))\<rparr>))
     = Inr (take 10 (drop (nat k)
         (rows table (case opt_filter q of None \<Rightarrow> [] | Some es \<Rightarrow> es)
            (case opt_order q of None \<Rightarrow> None
             | Some (c, a) \<Rightarrow> Some (c, case a of None \<Rightarrow> True | Some b \<Rightarrow> b)))))"
proof -
  let ?q = "q\<lparr>opt_limit := l, opt_offset := Some (Finite (of_int k))\<rparr>"
  have k63: "0 \<le> k" "k < 2 ^ 63" using assms by simp_all
  have ps: "num_add (num_sub (num_sub (num_add (Finite (of_int k)) (Finite 10))
              (Finite 1)) (Finite (of_int k))) (Finite 1) = Finite 10"
    using page_size_whole [of k 10] assms by simp
  have l10: "limit_or_10 l = Finite 10"
    using assms(3) by (auto simp: limit_or_10_def)
  have "qb_offset (getRecords_builder table (Some ?q)) = Some (Finite (of_int k))"
    "qb_limit (getRecords_builder table (Some ?q)) = Some (Finite 10)"
    using assms(1) ps l10 by (simp_all add: builder_paging)
  moreover have "param (Some (Finite (of_int k))) = Some (Some (nat k))"
    using row_count_whole [OF k63] by (simp add: param_def)
  moreover have "param (Some (Finite 10)) = Some (Some 10)"
    using row_count_whole [of 10] by (simp add: param_def)
  ultimately show ?thesis
    using getRecords_remote [of table ?q _ _ "Some (nat k)" "Some 10" rows other]
    by (simp add: paginate_def)
qed

lemma getRecords_unpaged:
  assumes "l = None \<or> l = Some (Finite 0)" and "k = None \<or> k = Some (Finite 0)"
  shows "getRecords_builder table (Some (q\<lparr>opt_limit := l, opt_offset := k\<rparr>))
     = \<lparr>qb_table = table,
        qb_select = or_default (opt_select q) ''*'',
        qb_eq = (case opt_filter q of None \<Rightarrow> [] | Some es \<Rightarrow> es),
        qb_order = (case opt_order q of None \<Rightarrow> None
                    | Some (c, a) \<Rightarrow> Some (c, case a of None \<Rightarrow> True | Some b \<Rightarrow> b)),
        qb_limit = None, qb_offset = None\<rparr>"
  using assms
  by (subst builder_explicit) (auto simp: builder_paging)

lemma getRecords_offset_only:
  assumes "k \<noteq> 0" and "\<bar>k\<bar> + 10 \<le> 2 ^ 53"
  shows "getRecords_builder table (Some (q\<lparr>opt_limit := None, opt_offset := Some (Finite (of_int k))\<rparr>))
     = \<lparr>qb_table = table,
        qb_select = or_default (opt_select q) ''*'',
        qb_eq = (case opt_filter q of None \<Rightarrow> [] | Some es \<Rightarrow> es),
        qb_order = (case opt_order q of None \<Rightarrow> None
                    | Some (c, a) \<Rightarrow> Some (c, case a of None \<Rightarrow> True | Some b \<Rightarrow> b)),
        qb_limit = Some (Finite 10), qb_offset = Some (Finite (of_int k))\<rparr>"
proof -
  have "num_add (num_sub (num_sub (num_add (Finite (of_int k)) (Finite 10))
              (Finite 1)) (Finite (of_int k))) (Finite 1) = Finite 10"
    using page_size_whole [of k 10] assms(2) by simp
  with assms(1) show ?thesis
    by (subst builder_explicit) (simp add: builder_paging limit_or_10_def)
qed

text \<open>
  C9 as stated fails where the arithmetic on numbers rounds: for an offset of \<open>2 ^ 53\<close>
  without a limit the request carries the limit 9, and of a table with more rows than that
  the call returns 9 rows.
\<close>

theorem getRecords_page_size_counterexample:
  "qb_offset (getRecords_builder ''profiles'' (Some (no_options\<lparr>opt_offset := Some (Finite (2 ^ 53))\<rparr>)))
     = Some (Finite (2 ^ 53))
   \<and> qb_limit (getRecords_builder ''profiles'' (Some (no_options\<lparr>opt_offset := Some (Finite (2 ^ 53))\<rparr>)))
     = Some (Finite 9)
   \<and> getRecords (remote_select huge_table (fails_select bare_error)) ''profiles''
       (Some (no_options\<lparr>opt_offset := Some (Finite (2 ^ 53))\<rparr>))
     = Inr (replicate 9 0)"
proof -
  let ?q = "no_options\<lparr>opt_offset := Some (Finite (2 ^ 53))\<rparr>"
  have o: "qb_offset (getRecords_builder ''profiles'' (Some ?q)) = Some (Finite (2 ^ 53))"
    by (simp add: builder_paging)
  have l: "qb_limit (getRecords_builder ''profiles'' (Some ?q)) = Some (Finite 9)"
    using page_size_rounds(1) by (simp add: builder_paging limit_or_10_def no_options_def)
  have po: "param (Some (Finite (2 ^ 53))) = Some (Some (2 ^ 53))"
    using row_count_whole [of "2 ^ 53"] by (simp add: param_def)
  have pl: "param (Some (Finite 9)) = Some (Some 9)"
    using row_count_whole [of 9] by (simp add: param_def)
  have "getRecords (remote_select huge_table (fails_select bare_error)) ''profiles'' (Some ?q)
          = Inr (replicate 9 0)"
    using getRecords_remote [OF o l po pl, of huge_table "fails_select bare_error"]
    by (simp add: paginate_def huge_table_def)
  with o l show ?thesis by simp
qed

text \<open>
  C9, amended: a limit of 0 builds the same query, and gets the same answer, as no limit,
  and an offset of 0 the same as no offset; with both 0 the query that is sent carries the
  table, the columns, the filters and the ordering and neither a limit nor an offset, and
  the remote answers it with all the rows. An offset \<open>k\<close> other than 0 without a limit, for
  a whole number \<open>k\<close> of magnitude at most \<open>2 ^ 53 - 10\<close>, sends that query with the offset
  \<open>k\<close> and the limit 10, and for \<open>k\<close> above 0 the remote answers it with the rows at the
  positions \<open>k\<close> to \<open>k + 9\<close>.
\<close>

theorem getRecords_zero_is_absent:
  fixes select_rows :: "'v query_builder \<Rightarrow> 'r list response"
    and rows :: "string \<Rightarrow> (string \<times> 'v) list \<Rightarrow> (string \<times> bool) option \<Rightarrow> 'r list"
    and other :: "'v query_builder \<Rightarrow> 'r list response"
    and table :: string and q :: "'v query_options" and k :: int
  defines "unpaged \<equiv>
      \<lparr>qb_table = table,
       qb_select = or_default (opt_select q) ''*'',
       qb_eq = (case opt_filter q of None \<Rightarrow> [] | Some es \<Rightarrow> es),
       qb_order = (case opt_order q of None \<Rightarrow> None
                   | Some (c, a) \<Rightarrow> Some (c, case a of None \<Rightarrow> True | Some b \<Rightarrow> b)),
       qb_limit = None, qb_offset = None\<rparr>"
    and "all_rows \<equiv>
      rows table (case opt_filter q of None \<Rightarrow> [] | Some es \<Rightarrow> es)
        (case opt_order q of None \<Rightarrow> None
         | Some (c, a) \<Rightarrow> Some (c, case a of None \<Rightarrow> True | Some b \<Rightarrow> b))"
  shows
    "getRecords_builder table (Some (q\<lparr>opt_limit := Some (Finite 0)\<rparr>))
       = getRecords_builder table (Some (q\<lparr>opt_limit := None\<rparr>))
     \<and> getRecords select_rows table (Some (q\<lparr>opt_limit := Some (Finite 0)\<rparr>))
       = getRecords select_rows table (Some (q\<lparr>opt_limit := None\<rparr>))
     \<and> getRecords_builder table (Some (q\<lparr>opt_offset := Some (Finite 0)\<rparr>))
       = getRecords_builder table (Some (q\<lparr>opt_offset := None\<rparr>))
     \<and> getRecords select_rows table (Some (q\<lparr>opt_offset := Some (Finite 0)\<rparr>))
       = getRecords select_rows table (Some (q\<lparr>opt_offset := None\<rparr>))
     \<and> getRecords_builder table
         (Some (q\<lparr>opt_limit := Some (Finite 0), opt_offset := Some (Finite 0)\<rparr>)) = unpaged
     \<and> getRecords select_rows table
         (Some (q\<lparr>opt_limit := Some (Finite 0), opt_offset := Some (Finite 0)\<rparr>))
       = (case select_rows unpaged of
            Failure e \<Rightarrow> Inl (handleSupabaseError e)
          | Success d \<Rightarrow> Inr d)
     \<and> getRecords (remote_select rows other) table
         (Some (q\<lparr>opt_limit := Some (Finite 0), opt_offset := Some (Finite 0)\<rparr>))
       = Inr all_rows
     \<and> (k \<noteq> 0 \<and> \<bar>k\<bar> + 10 \<le> 2 ^ 53 \<longrightarrow>
          getRecords_builder table
            (Some (q\<lparr>opt_limit := None, opt_offset := Some (Finite (of_int k))\<rparr>))
            = unpaged\<lparr>qb_limit := Some (Finite 10), qb_offset := Some (Finite (of_int k))\<rparr>
          \<and> getRecords select_rows table
              (Some (q\<lparr>opt_limit := None, opt_offset := Some (Finite (of_int k))\<rparr>))
            = (case select_rows
                      (unpaged\<lparr>qb_limit := Some (Finite 10),
                               qb_offset := Some (Finite (of_int k))\<rparr>) of
                 Failure e \<Rightarrow> Inl (handleSupabaseError e)
               | Success d \<Rightarrow> Inr d))
     \<and> (0 < k \<and> k + 10 \<le> 2 ^ 53 \<longrightarrow>
          getRecords (remote_select rows other) table
            (Some (q\<lparr>opt_limit := None, opt_offset := Some (Finite (of_int k))\<rparr>))
            = Inr (slice k (k + 9) all_rows))"
proof -
  have z: "getRecords_builder table
         (Some (q\<lparr>opt_limit := Some (Finite 0), opt_offset := Some (Finite 0)\<rparr>)) = unpaged"
    unfolding unpaged_def by (rule getRecords_unpaged) simp_all
  have r: "getRecords (remote_select rows other) table
         (Some (q\<lparr>opt_limit := Some (Finite 0), opt_offset := Some (Finite 0)\<rparr>))
       = Inr all_rows"
    by (simp add: getRecords_def z remote_select_def unpaged_def all_rows_def param_def
        paginate_def result_set_def)
  have b: "k \<noteq> 0 \<and> \<bar>k\<bar> + 10 \<le> 2 ^ 53 \<longrightarrow>
          getRecords_builder table
            (Some (q\<lparr>opt_limit := None, opt_offset := Some (Finite (of_int k))\<rparr>))
            = unpaged\<lparr>qb_limit := Some (Finite 10), qb_offset := Some (Finite (of_int k))\<rparr>"
    unfolding unpaged_def by (simp add: getRecords_offset_only)
  have p: "0 < k \<and> k + 10 \<le> 2 ^ 53 \<longrightarrow>
          getRecords (remote_select rows other) table
            (Some (q\<lparr>opt_limit := None, opt_offset := Some (Finite (of_int k))\<rparr>))
            = Inr (slice k (k + 9) all_rows)"
    unfolding all_rows_def by (simp add: getRecords_default_page slice_def)
  from z r b p show ?thesis
    using builder_limit_zero [of table q] builder_offset_zero [of table q]
    by (simp add: getRecords_def)
qed

text \<open>
  The amended C9 on twelve rows: with limit and offset both 0 all twelve are returned, and
  with an offset of 5 and no limit the seven at the positions 5 to 11, all that the range
  from 5 to 14 holds.
\<close>

theorem getRecords_zero_is_absent_witness:
  "getRecords (remote_select twelve_rows (fails_select bare_error)) ''profiles''
       (Some (no_options\<lparr>opt_limit := Some (Finite 0), opt_offset := Some (Finite 0)\<rparr>))
     = Inr [0, 1, 2, 3, 4, 5, 6, 7, 8, 9, 10, 11]
   \<and> qb_limit (getRecords_builder ''profiles''
       (Some (no_options\<lparr>opt_limit := None, opt_offset := Some (Finite 5)\<rparr>)))
     = Some (Finite 10)
   \<and> getRecords (remote_select twelve_rows (fails_select bare_error)) ''profiles''
       (Some (no_options\<lparr>opt_limit := None, opt_offset := Some (Finite 5)\<rparr>))
     = Inr [5, 6, 7, 8, 9, 10, 11]"
proof -
  have h: "(5::int) \<noteq> 0 \<and> \<bar>5::int\<bar> + 10 \<le> 2 ^ 53" "(0::int) < 5 \<and> (5::int) + 10 \<le> 2 ^ 53"
    by simp_all
  note all = getRecords_zero_is_absent
         [of "''profiles''" no_options "remote_select twelve_rows (fails_select bare_error)"
            twelve_rows "fails_select bare_error" 5]
  note rest = all [THEN conjunct2, THEN conjunct2, THEN conjunct2, THEN conjunct2,
                   THEN conjunct2, THEN conjunct2]
  have a: "getRecords (remote_select twelve_rows (fails_select bare_error)) ''profiles''
       (Some (no_options\<lparr>opt_limit := Some (Finite 0), opt_offset := Some (Finite 0)\<rparr>))
     = Inr [0, 1, 2, 3, 4, 5, 6, 7, 8, 9, 10, 11]"
    using rest [THEN conjunct1] by (simp add: twelve_rows_def)
  have b: "qb_limit (getRecords_builder ''profiles''
       (Some (no_options\<lparr>opt_limit := None, opt_offset := Some (Finite 5)\<rparr>)))
     = Some (Finite 10)"
    using rest [THEN conjunct2, THEN conjunct1] h(1) by simp
  have c: "getRecords (remote_select twelve_rows (fails_select bare_error)) ''profiles''
       (Some (no_options\<lparr>opt_limit := None, opt_offset := Some (Finite 5)\<rparr>))
     = Inr [5, 6, 7, 8, 9, 10, 11]"
    using rest [THEN conjunct2, THEN conjunct2] h(2) by (simp add: twelve_rows_def slice_def)
  from a b c show ?thesis by simp
qed




section \<open>Signing in with invalid credentials\<close>

text \<open>
  C5: when the remote auth service refuses the credentials and there was no session,
  \<^verbatim>\<open>signIn\<close> returns \<^verbatim>\<open>success = false\<close> with a message that is not empty, has sent one
  request and no more, and leaves the session null. Its callers follow: \<^verbatim>\<open>login\<close> returns
  false, the login page shows the message as its error and does not navigate, and the
  derived user is absent and not authenticated.
\<close>

theorem signIn_invalid_credentials:
  assumes "signInWithPassword cred = Failure e" and "hs_session st = None"
  shows "success (fst (signIn signInWithPassword st cred)) = False
     \<and> message (fst (signIn signInWithPassword st cred)) \<noteq> []
     \<and> hs_session (snd (signIn signInWithPassword st cred)) = None
     \<and> hs_requests (snd (signIn signInWithPassword st cred)) = Suc (hs_requests st)
     \<and> login (Returned (fst (signIn signInWithPassword st cred))) = False
     \<and> lp_error (handleSubmit (Returned (fst (signIn signInWithPassword st cred))))
         = Some (message (fst (signIn signInWithPassword st cred)))
     \<and> lp_navigate (handleSubmit (Returned (fst (signIn signInWithPassword st cred)))) = None
     \<and> AuthProvider_user (hook_user (snd (signIn signInWithPassword st cred))) prof = None
     \<and> \<not> AuthProvider_isAuthenticated (hook_user (snd (signIn signInWithPassword st cred)))"
  using assms
  by (cases "err_message e")
     (simp_all add: signIn_def login_def handleSubmit_def hook_user_def AuthProvider_user_def
      AuthProvider_isAuthenticated_def)

text \<open>C5 at a wrong password, against a remote that refuses every sign-in.\<close>

theorem signIn_invalid_credentials_witness:
  "success (fst (signIn reject_all signed_out wrong_password)) = False
   \<and> message (fst (signIn reject_all signed_out wrong_password)) = ''Invalid login credentials''
   \<and> hs_session (snd (signIn reject_all signed_out wrong_password)) = None
   \<and> hs_requests (snd (signIn reject_all signed_out wrong_password)) = 1
   \<and> login (Returned (fst (signIn reject_all signed_out wrong_password))) = False"
proof -
  have r: "reject_all wrong_password
        = Failure \<lparr>err_message = Some ''Invalid login credentials'',
                   err_code = Some ''invalid_credentials''\<rparr>"
    by (simp add: reject_all_def)
  have s: "hs_session signed_out = None" by (simp add: signed_out_def)
  from signIn_invalid_credentials
         [where signInWithPassword = reject_all and st = signed_out, OF r s]
  show ?thesis by (simp add: signIn_def reject_all_def signed_out_def)
qed

end
